theory Spec2Isabelle
  imports Complex_Main
begin

section \<open>JavaScript values\<close>

text \<open>
  A JavaScript \<open>number\<close>. The finite values are taken as reals (so \<open>-0\<close> and \<open>0\<close>
  coincide, which is harmless here: both are falsy); the three special values are kept
  apart because truthiness tells them apart: \<open>NaN\<close> is falsy, the infinities are truthy.
\<close>

datatype number = Num real | PosInfinity | NegInfinity | NaN

fun truthy :: "number \<Rightarrow> bool" where
  "truthy (Num x) = (x \<noteq> 0)"
| "truthy PosInfinity = True"
| "truthy NegInfinity = True"
| "truthy NaN = False"

text \<open>\<open>a || b\<close> on an optional number: \<open>undefined\<close> (here \<open>None\<close>) is falsy too.\<close>

fun orElse :: "number option \<Rightarrow> number \<Rightarrow> number" where
  "orElse None d = d"
| "orElse (Some v) d = (if truthy v then v else d)"

text \<open>A texture source is what the bundler's import gives: a URL string, truthy unless empty.\<close>

fun truthySrc :: "string option \<Rightarrow> bool" where
  "truthySrc None = False"
| "truthySrc (Some u) = (u \<noteq> [])"

section \<open>clockMaterial.ts\<close>

record MaterialTextures =
  tex_diffuse :: string
  tex_roughness :: "string option"
  tex_normal :: "string option"

record Color3 =
  red :: real
  green :: real
  blue :: real

record MaterialConfig =
  textures :: MaterialTextures
  cfg_metallic :: "number option"
  cfg_roughness :: "number option"
  emissive :: "Color3 option"
  textureScale :: "number option"

record Texture =
  url :: string
  uScale :: number
  vScale :: number

text \<open>
  The fields of the engine's material that the constructor touches. \<open>emissiveColor\<close> is
  \<open>None\<close> while the engine's own default is in place.
\<close>

record PBRMetallicRoughnessMaterial =
  matName :: string
  baseTexture :: Texture
  metallicRoughnessTexture :: "Texture option"
  normalTexture :: "Texture option"
  metallic :: number
  roughness :: number
  emissiveColor :: "Color3 option"

definition newTexture :: "string \<Rightarrow> number \<Rightarrow> Texture" where
  "newTexture u scale = \<lparr>url = u, uScale = scale, vScale = scale\<rparr>"

definition ClockMaterial :: "MaterialConfig \<Rightarrow> PBRMetallicRoughnessMaterial" where
  "ClockMaterial config =
     (let scale = orElse (textureScale config) (Num 1.0)
      in \<lparr>matName = ''clockMaterial'',
          baseTexture = newTexture (tex_diffuse (textures config)) scale,
          metallicRoughnessTexture =
            (if truthySrc (tex_roughness (textures config))
             then Some (newTexture (the (tex_roughness (textures config))) scale) else None),
          normalTexture =
            (if truthySrc (tex_normal (textures config))
             then Some (newTexture (the (tex_normal (textures config))) scale) else None),
          metallic = (case cfg_metallic config of Some v \<Rightarrow> v | None \<Rightarrow> Num 1.0),
          roughness = (case cfg_roughness config of Some v \<Rightarrow> v | None \<Rightarrow> Num 0.5),
          emissiveColor = emissive config\<rparr>)"

section \<open>The clock (class \<open>Clock\<close>)\<close>

subsection \<open>Meshes and the font system\<close>

datatype Compiler = Compiler
datatype Font = Font string
datatype TextMeshBuilder = TextMeshBuilder

text \<open>
  A digit mesh: an identity (objects are compared by reference), the text it shows, the
  x extent of its bounding box as the builder made it, and the properties the clock
  sets. Coordinates are reals; the clock's claims do not depend on rounding.
\<close>

record Mesh =
  meshId :: nat
  meshText :: string
  bboxMinX :: real
  bboxMaxX :: real
  scaling :: "real \<times> real \<times> real"
  rotation :: "real \<times> real \<times> real"
  position :: "real \<times> real \<times> real"
  meshMaterial :: "PBRMetallicRoughnessMaterial option"
  isVisible :: bool
  checkCollisions :: bool
  parent :: "string option"

text \<open>
  What the \<open>try\<close> block of \<open>createTextMesh\<close> can meet: the builder returns a mesh (with
  the x extent of its bounding box) and the set-up goes through; the builder returns
  \<open>null\<close>; the builder throws; or the builder returns a mesh and a later call of the
  block throws, which leaves the new mesh in the scene and returns \<open>null\<close>. The flag of
  the last case tells whether the mesh had already been parented to the clock's
  container when the block threw.
\<close>

datatype BuildResult = Built real real | BuiltNull | BuildThrew | BuiltThenThrew bool

text \<open>
  What happens in the scene: a mesh comes into being, or \<open>dispose\<close> is called on a mesh.
\<close>

datatype SceneEvent = Created nat | Disposed nat

text \<open>
  The world outside the clock, as one call of \<open>updateTime\<close> sees it: \<open>Date.now()\<close>, the
  local hours and minutes of \<open>new Date()\<close>, and the behaviour of the mesh builder.
\<close>

record Env =
  nowMs :: int
  getHours :: nat
  getMinutes :: nat
  create :: "string \<Rightarrow> BuildResult"

record Clock =
  digitMeshes :: "Mesh option list"
  clockMaterial :: PBRMetallicRoughnessMaterial
  currentTimeString :: string
  lastUpdateTime :: int
  compiler :: "Compiler option"
  font :: "Font option"
  textBuilder :: "TextMeshBuilder option"
  isReady :: bool
  nextMeshId :: nat
  sceneLog :: "SceneEvent list"
  containerChildren :: "nat list"
  materialDisposed :: bool
  containerDisposed :: bool

definition digitHeight :: real where "digitHeight = 1.5"
definition digitDepth :: real where "digitDepth = 0.15"
definition digitSpacing :: real where "digitSpacing = 0.6"

subsection \<open>Formatting the time\<close>

definition digitChar :: "nat \<Rightarrow> char" where
  "digitChar d = ''0123456789'' ! d"

fun toString :: "nat \<Rightarrow> string" where
  "toString n = (if n < 10 then [digitChar n] else toString (n div 10) @ [digitChar (n mod 10)])"

declare toString.simps [simp del]

definition padStart :: "nat \<Rightarrow> char \<Rightarrow> string \<Rightarrow> string" where
  "padStart n c s = replicate (n - length s) c @ s"

definition hoursString :: "Env \<Rightarrow> string" where
  "hoursString e = padStart 2 CHR ''0'' (toString (getHours e))"

definition minutesString :: "Env \<Rightarrow> string" where
  "minutesString e = padStart 2 CHR ''0'' (toString (getMinutes e))"

definition timeString :: "Env \<Rightarrow> string" where
  "timeString e = hoursString e @ '':'' @ minutesString e"

text \<open>\<open>s[i]\<close> on a string; both strings indexed below have at least two characters.\<close>

definition charAt :: "string \<Rightarrow> nat \<Rightarrow> string" where
  "charAt s i = (if i < length s then [s ! i] else [])"

subsection \<open>Construction\<close>

definition clockConfig :: MaterialConfig where
  "clockConfig =
     \<lparr>textures = \<lparr>tex_diffuse = ''concrete_wall_006_diff_1k.jpg'',
                   tex_roughness = Some ''concrete_wall_006_nor_gl_1k.jpg'',
                   tex_normal = Some ''concrete_wall_006_rough_1k.jpg''\<rparr>,
      cfg_metallic = Some (Num 0.5),
      cfg_roughness = Some (Num 0.7),
      emissive = None,
      textureScale = Some (Num 0.5)\<rparr>"

text \<open>
  The object as the constructor leaves it: \<open>initializeFont\<close> has been started and is
  waiting for the compiler, so none of the font fields is set yet.
\<close>

definition newClock :: Clock where
  "newClock =
     \<lparr>digitMeshes = [None, None, None, None, None],
      clockMaterial = ClockMaterial clockConfig,
      currentTimeString = [],
      lastUpdateTime = 0,
      compiler = None,
      font = None,
      textBuilder = None,
      isReady = False,
      nextMeshId = 0,
      sceneLog = [],
      containerChildren = [],
      materialDisposed = False,
      containerDisposed = False\<rparr>"

subsection \<open>\<open>createTextMesh\<close>, \<open>updateDigitMesh\<close>, \<open>positionDigits\<close>\<close>

definition createTextMesh :: "Env \<Rightarrow> string \<Rightarrow> Clock \<Rightarrow> Mesh option \<times> Clock" where
  "createTextMesh e text s =
     (if textBuilder s = None \<or> font s = None \<or> \<not> isReady s then (None, s)
      else case create e text of
             BuildThrew \<Rightarrow> (None, s)
           | BuiltNull \<Rightarrow> (None, s)
           | BuiltThenThrew parented \<Rightarrow>
               (None, s\<lparr>nextMeshId := Suc (nextMeshId s),
                        sceneLog := sceneLog s @ [Created (nextMeshId s)],
                        containerChildren :=
                          (if parented then containerChildren s @ [nextMeshId s]
                           else containerChildren s)\<rparr>)
           | Built lo hi \<Rightarrow>
               (let scaleFactor = digitHeight / 100;
                    mesh = \<lparr>meshId = nextMeshId s, meshText = text,
                            bboxMinX = lo, bboxMaxX = hi,
                            scaling = (- scaleFactor, scaleFactor, scaleFactor),
                            rotation = (0, 0, 0), position = (0, 0, 0),
                            meshMaterial = Some (clockMaterial s),
                            isVisible = True, checkCollisions = False,
                            parent = Some ''clockContainer''\<rparr>
                in (Some mesh,
                    s\<lparr>nextMeshId := Suc (nextMeshId s),
                      sceneLog := sceneLog s @ [Created (nextMeshId s)],
                      containerChildren := containerChildren s @ [nextMeshId s]\<rparr>)))"

text \<open>Reading a slot; beyond the end JavaScript gives \<open>undefined\<close>, which is falsy.\<close>

definition slot :: "Mesh option list \<Rightarrow> nat \<Rightarrow> Mesh option" where
  "slot ms i = (if i < length ms then ms ! i else None)"

definition updateDigitMesh :: "Env \<Rightarrow> nat \<Rightarrow> string \<Rightarrow> Clock \<Rightarrow> Clock" where
  "updateDigitMesh e pos ch s =
     (let s1 = (case slot (digitMeshes s) pos of
                  Some old \<Rightarrow> s\<lparr>sceneLog := sceneLog s @ [Disposed (meshId old)],
                                containerChildren :=
                                  removeAll (meshId old) (containerChildren s),
                                digitMeshes := (digitMeshes s)[pos := None]\<rparr>
                | None \<Rightarrow> s);
          (r, s2) = createTextMesh e ch s1
      in case r of
           Some mesh \<Rightarrow> s2\<lparr>digitMeshes := (digitMeshes s2)[pos := Some mesh]\<rparr>
         | None \<Rightarrow> s2)"

definition getMeshInfo :: "Mesh option \<Rightarrow> real \<times> real" where
  "getMeshInfo m =
     (case m of
        None \<Rightarrow> (0, 0)
      | Some mesh \<Rightarrow>
          (\<bar>bboxMaxX mesh - bboxMinX mesh\<bar> * \<bar>fst (scaling mesh)\<bar>,
           ((bboxMaxX mesh + bboxMinX mesh) / 2) * fst (scaling mesh)))"

definition positionDigits :: "Clock \<Rightarrow> Clock" where
  "positionDigits s =
     (let ms = map (map_option (\<lambda>m. m\<lparr>rotation := (- pi / 2, 0, 0), position := (0, 0, 0)\<rparr>))
                   (digitMeshes s);
          info = map getMeshInfo ms;
          width = (\<lambda>i. fst (info ! i));
          colonHalfWidth = width 2 / 2;
          colonGap = digitSpacing * 0.5;
          pos1 = 0 + (colonHalfWidth + colonGap + width 1 / 2);
          pos0 = pos1 + (width 1 / 2 + digitSpacing + width 0 / 2);
          pos3 = 0 - (colonHalfWidth + colonGap + width 3 / 2);
          pos4 = pos3 - (width 3 / 2 + digitSpacing + width 4 / 2);
          positions = [pos0, pos1, 0, pos3, pos4]
      in s\<lparr>digitMeshes :=
             map (\<lambda>i. map_option
                        (\<lambda>m. m\<lparr>position := (positions ! i - snd (info ! i), 0, 0)\<rparr>) (ms ! i))
                 [0 ..< length ms]\<rparr>)"

subsection \<open>\<open>updateTime\<close>\<close>

definition updateTime :: "Env \<Rightarrow> Clock \<Rightarrow> Clock" where
  "updateTime e s =
     (if \<not> isReady s then s
      else if nowMs e - lastUpdateTime s < 1000 then s
      else
        let s1 = s\<lparr>lastUpdateTime := nowMs e\<rparr>;
            hours = hoursString e;
            minutes = minutesString e;
            timeStr = hours @ '':'' @ minutes
        in if timeStr = currentTimeString s1 then s1
           else
             let s2 = s1\<lparr>currentTimeString := timeStr\<rparr>;
                 s3 = updateDigitMesh e 0 (charAt hours 0) s2;
                 s4 = updateDigitMesh e 1 (charAt hours 1) s3;
                 s5 = updateDigitMesh e 2 '':'' s4;
                 s6 = updateDigitMesh e 3 (charAt minutes 0) s5;
                 s7 = updateDigitMesh e 4 (charAt minutes 1) s6
             in positionDigits s7)"

definition update :: "Env \<Rightarrow> Clock \<Rightarrow> Clock" where
  "update e s = updateTime e s"

text \<open>
  \<open>dispose\<close> calls \<open>dispose\<close> on every mesh it holds in \<open>digitMeshes\<close>, then on the
  material, then on the container. Disposing the container disposes the meshes still
  parented to it: those that \<open>createTextMesh\<close> parented and then lost to a throw.
\<close>

definition heldMeshIds :: "Mesh option list \<Rightarrow> nat list" where
  "heldMeshIds ms =
     concat (map (\<lambda>m. case m of Some mesh \<Rightarrow> [meshId mesh] | None \<Rightarrow> []) ms)"

definition dispose :: "Clock \<Rightarrow> Clock" where
  "dispose s =
     (let held = heldMeshIds (digitMeshes s);
          rest = filter (\<lambda>i. i \<notin> set held) (containerChildren s)
      in s\<lparr>sceneLog := sceneLog s @ map Disposed held @ map Disposed rest,
           containerChildren := [],
           materialDisposed := True,
           containerDisposed := True\<rparr>)"

subsection \<open>\<open>initializeFont\<close>\<close>

text \<open>
  \<open>initializeFont\<close> is asynchronous: it runs up to \<open>await Compiler.Build()\<close>, later from
  there up to \<open>await Font.Install(...)\<close>, and later from there to its end. Between two
  of these segments any other code of the page may run, in particular the render loop's
  \<open>update\<close>. Each segment is a function of its own; a rejected promise or a throwing
  constructor ends in the \<open>catch\<close> block, which only logs.
\<close>

definition compilerBuilt :: "Compiler \<Rightarrow> Clock \<Rightarrow> Clock" where
  "compilerBuilt c s = s\<lparr>compiler := Some c\<rparr>"

definition fontInstalled :: "Font \<Rightarrow> TextMeshBuilder option \<Rightarrow> Env \<Rightarrow> Clock \<Rightarrow> bool \<times> Clock" where
  "fontInstalled f b e s =
     (let s1 = s\<lparr>font := Some f\<rparr>
      in case b of
           None \<Rightarrow> (False, s1)
         | Some tb \<Rightarrow>
             (let s2 = s1\<lparr>textBuilder := Some tb\<rparr>;
                  s3 = s2\<lparr>isReady := True\<rparr>
              in (True, updateTime e s3)))"

datatype InitPhase = AwaitingCompiler | AwaitingFont | Completed | Failed

text \<open>
  The states a clock can be in, with the progress of its \<open>initializeFont\<close>: the
  constructor's result, the three segments of \<open>initializeFont\<close> with either outcome of
  each wait, and between them any number of calls of the public \<open>update\<close> and
  \<open>dispose\<close>.
\<close>

inductive reachable :: "InitPhase \<Rightarrow> Clock \<Rightarrow> bool" where
  constructed: "reachable AwaitingCompiler newClock"
| compiler_resolved:
    "reachable AwaitingCompiler s \<Longrightarrow> reachable AwaitingFont (compilerBuilt c s)"
| compiler_rejected:
    "reachable AwaitingCompiler s \<Longrightarrow> reachable Failed s"
| font_resolved:
    "reachable AwaitingFont s \<Longrightarrow> fontInstalled f b e s = (ok, s') \<Longrightarrow>
     reachable (if ok then Completed else Failed) s'"
| font_rejected:
    "reachable AwaitingFont s \<Longrightarrow> reachable Failed s"
| frame:
    "reachable p s \<Longrightarrow> reachable p (update e s)"
| disposed:
    "reachable p s \<Longrightarrow> reachable p (dispose s)"

subsection \<open>Sample inputs\<close>

text \<open>
  A morning frame (09:41) with a builder that succeeds, and a clock whose font system is
  loaded but which has not shown anything yet.
\<close>

definition morningEnv :: Env where
  "morningEnv = \<lparr>nowMs = 1700000000000, getHours = 9, getMinutes = 41,
                  create = (\<lambda>t. Built 0 60)\<rparr>"

definition loadedClock :: Clock where
  "loadedClock =
     newClock\<lparr>compiler := Some Compiler, font := Some (Font ''/assets/Roboto-Regular.ttf''),
              textBuilder := Some TextMeshBuilder, isReady := True\<rparr>"

definition shownClock :: Clock where
  "shownClock = loadedClock\<lparr>currentTimeString := ''09:41'', lastUpdateTime := 1699999990000\<rparr>"

definition bareConfig :: MaterialConfig where
  "bareConfig =
     \<lparr>textures = \<lparr>tex_diffuse = ''metal.jpg'', tex_roughness = None, tex_normal = None\<rparr>,
      cfg_metallic = None,
      cfg_roughness = None,
      emissive = None,
      textureScale = Some (Num 0)\<rparr>"

section \<open>The ocean wave field\<close>

text \<open>
  The wave simulation's kernels are not among the sources at hand; what follows is
  written from the specification's description of them.
\<close>

text \<open>Modelled from the spec: the 2D wavevector \<open>(kx, kz)\<close> of a grid cell (the code
  holding it is missing).\<close>

type_synonym wavevector = "real \<times> real"

text \<open>Modelled from the spec: the magnitude \<open>|k|\<close> of a cell's wavevector \<open>(kx, kz)\<close>
  (the Spectrum Sample's attributes; the code computing it is missing).\<close>

definition kmag :: "wavevector \<Rightarrow> real" where
  "kmag k = sqrt ((fst k)\<^sup>2 + (snd k)\<^sup>2)"

text \<open>Modelled from the spec: the opposite wavevector \<open>- k\<close> of the conjugate pair
  (the Time Evolution Stage's code is missing).\<close>

definition negk :: "wavevector \<Rightarrow> wavevector" where
  "negk k = (- fst k, - snd k)"

text \<open>Modelled from the spec: the dispersion relation of the Time Evolution Stage,
  deep-water approximation with g fixed at 9.81 (the stage's code is missing).\<close>

definition dispersion :: "wavevector \<Rightarrow> real" where
  "dispersion k = sqrt (9.81 * kmag k)"

text \<open>Modelled from the spec: the first half of the conjugate pair, the base amplitude
  of the cell advanced by the phase \<open>\<omega>t\<close> (the Time Evolution Stage's code is missing).\<close>

definition forwardTerm :: "(wavevector \<Rightarrow> complex) \<Rightarrow> wavevector \<Rightarrow> real \<Rightarrow> complex" where
  "forwardTerm h0 k t = h0 k * cis (dispersion k * t)"

text \<open>Modelled from the spec: the second half of the conjugate pair, the conjugate of
  the opposite cell's base amplitude turned back by the same phase (the Time Evolution
  Stage's code is missing).\<close>

definition backwardTerm :: "(wavevector \<Rightarrow> complex) \<Rightarrow> wavevector \<Rightarrow> real \<Rightarrow> complex" where
  "backwardTerm h0 k t = cnj (h0 (negk k)) * cis (- (dispersion k * t))"

text \<open>Modelled from the spec: the evolved height amplitude of one cell, the sum of the
  time-evolved conjugate pair (the Time Evolution Stage's code is missing).\<close>

definition timeEvolution :: "(wavevector \<Rightarrow> complex) \<Rightarrow> wavevector \<Rightarrow> real \<Rightarrow> complex" where
  "timeEvolution h0 k t = forwardTerm h0 k t + backwardTerm h0 k t"


subsection \<open>Configuration and the pipeline's two states\<close>

text \<open>Modelled from the spec: the input parameters of the external interface (the code
  holding them is missing); the gravitational constant is fixed and not a field.\<close>

record OceanConfig =
  gridSize :: nat
  patchSize :: real
  windDirection :: "real \<times> real"
  windSpeed :: real
  amplitudeScale :: real
  choppiness :: real

text \<open>Modelled from the spec: the configuration error of the error taxonomy (the code
  raising it is missing).\<close>

datatype OceanError = ConfigurationError

text \<open>Modelled from the spec: the two states of the pipeline, no spectrum computed or
  a spectrum computed (the pipeline's code is missing).\<close>

datatype 'sp Pipeline = Uninitialized | Running 'sp

text \<open>Modelled from the spec: "N is a power of two", the invariant of the Simulation
  Grid (the code checking it is missing). The exponent is below N, as \<open>k < 2 ^ k\<close>.\<close>

definition isPowerOfTwo :: "nat \<Rightarrow> bool" where
  "isPowerOfTwo n = (\<exists>k \<in> {0 ..< n}. n = 2 ^ k)"

text \<open>Modelled from the spec: the configuration errors of the error taxonomy, grid size
  not a power of two or patch size at most 0 (the validating code is missing).\<close>

definition validateConfig :: "OceanConfig \<Rightarrow> OceanError + unit" where
  "validateConfig c =
     (if \<not> isPowerOfTwo (gridSize c) \<or> patchSize c \<le> 0 then Inl ConfigurationError
      else Inr ())"

text \<open>Modelled from the spec: supplying parameters to the pipeline (its code is
  missing). A configuration error is rejected before spectrum initialization and leaves
  the state as it was; otherwise the spectrum is computed and the pipeline is Running.
  The Spectrum Initializer is the parameter \<open>initSpectrum\<close>.\<close>

definition initializePipeline ::
    "(OceanConfig \<Rightarrow> 'sp) \<Rightarrow> OceanConfig \<Rightarrow> 'sp Pipeline \<Rightarrow> (OceanError + unit) \<times> 'sp Pipeline" where
  "initializePipeline initSpectrum c st =
     (case validateConfig c of
        Inl err \<Rightarrow> (Inl err, st)
      | Inr _ \<Rightarrow> (Inr (), Running (initSpectrum c)))"

subsection \<open>The inverse transform's passes\<close>

text \<open>Modelled from the spec: one butterfly pass, along the rows or along the columns,
  with its number within the dimension (the FFT Engine's code is missing).\<close>

datatype Pass = RowPass nat | ColumnPass nat

text \<open>Modelled from the spec: a buffer of complex samples, read at cell \<open>(n, m)\<close> (the
  FFT Engine's code is missing).\<close>

type_synonym buffer = "nat \<Rightarrow> nat \<Rightarrow> complex"

text \<open>Modelled from the spec: \<open>log2(N)\<close>, the number of butterfly passes per dimension
  (the FFT Engine's code is missing).\<close>

fun log2 :: "nat \<Rightarrow> nat" where
  "log2 n = (if n < 2 then 0 else Suc (log2 (n div 2)))"

declare log2.simps [simp del]

text \<open>Modelled from the spec: the passes of one 2D inverse transform, the row passes
  and then the column passes (the FFT Engine's code is missing).\<close>

definition fftPasses :: "nat \<Rightarrow> Pass list" where
  "fftPasses N = map RowPass [0 ..< log2 N] @ map ColumnPass [0 ..< log2 N]"

text \<open>Modelled from the spec: running the passes in sequence, each pass reading the
  previous pass's output and costing one parallel dispatch (the FFT Engine's code is
  missing). What one butterfly pass computes is the parameter \<open>butterfly\<close>; the second
  component counts the dispatches.\<close>

fun runPasses :: "(Pass \<Rightarrow> buffer \<Rightarrow> buffer) \<Rightarrow> Pass list \<Rightarrow> buffer \<times> nat \<Rightarrow> buffer \<times> nat" where
  "runPasses butterfly [] st = st"
| "runPasses butterfly (p # ps) (buf, dispatches) =
     runPasses butterfly ps (butterfly p buf, Suc dispatches)"

text \<open>Modelled from the spec: the output sign correction of cell \<open>(n, m)\<close> (the FFT
  Engine's code is missing).\<close>

definition signCorrection :: "nat \<Rightarrow> nat \<Rightarrow> complex \<Rightarrow> complex" where
  "signCorrection n m z = (- 1) ^ (n + m) * z"

text \<open>Modelled from the spec: the full 2D inverse transform of one buffer, all passes
  and then the sign correction of every cell (the FFT Engine's code is missing).\<close>

definition inverseFFT2D :: "(Pass \<Rightarrow> buffer \<Rightarrow> buffer) \<Rightarrow> nat \<Rightarrow> buffer \<Rightarrow> buffer \<times> nat" where
  "inverseFFT2D butterfly N buf =
     (let (out, dispatches) = runPasses butterfly (fftPasses N) (buf, 0)
      in (\<lambda>n m. signCorrection n m (out n m), dispatches))"

section \<open>Properties of the material\<close>

text \<open>
  Claim C10. For every configuration given to the constructor: metallic is 1.0 and
  roughness is 0.5 when the field is undefined and the given value otherwise, whatever
  it is; the texture scale is 1.0 for an undefined and for any falsy \<open>textureScale\<close>
  (0 and NaN) and the given value otherwise, on the base texture and on the roughness
  and normal maps when there are any. An explicit \<open>textureScale\<close> of 0 becomes 1.0.
\<close>

theorem ClockMaterial_defaults:
  "(cfg_metallic c = None \<longrightarrow> metallic (ClockMaterial c) = Num 1.0) \<and>
   (cfg_metallic c = Some v \<longrightarrow> metallic (ClockMaterial c) = v) \<and>
   (cfg_roughness c = None \<longrightarrow> roughness (ClockMaterial c) = Num 0.5) \<and>
   (cfg_roughness c = Some w \<longrightarrow> roughness (ClockMaterial c) = w) \<and>
   uScale (baseTexture (ClockMaterial c)) =
     (case textureScale c of None \<Rightarrow> Num 1.0 | Some x \<Rightarrow> if truthy x then x else Num 1.0) \<and>
   vScale (baseTexture (ClockMaterial c)) = uScale (baseTexture (ClockMaterial c)) \<and>
   (metallicRoughnessTexture (ClockMaterial c) = Some tr \<longrightarrow>
      uScale tr = uScale (baseTexture (ClockMaterial c)) \<and> vScale tr = uScale tr) \<and>
   (normalTexture (ClockMaterial c) = Some tn \<longrightarrow>
      uScale tn = uScale (baseTexture (ClockMaterial c)) \<and> vScale tn = uScale tn) \<and>
   (textureScale c = Some (Num 0) \<longrightarrow> uScale (baseTexture (ClockMaterial c)) = Num 1.0)"
  by (cases "textureScale c")
     (auto simp: ClockMaterial_def Let_def newTexture_def split: if_splits)

theorem ClockMaterial_defaults_witness:
  "cfg_metallic bareConfig = None \<and> metallic (ClockMaterial bareConfig) = Num 1.0 \<and>
   cfg_roughness bareConfig = None \<and> roughness (ClockMaterial bareConfig) = Num 0.5 \<and>
   textureScale bareConfig = Some (Num 0) \<and>
   uScale (baseTexture (ClockMaterial bareConfig)) = Num 1.0 \<and>
   cfg_metallic clockConfig = Some (Num 0.5) \<and> metallic (ClockMaterial clockConfig) = Num 0.5 \<and>
   cfg_roughness clockConfig = Some (Num 0.7) \<and> roughness (ClockMaterial clockConfig) = Num 0.7 \<and>
   metallicRoughnessTexture (ClockMaterial clockConfig)
     = Some (newTexture ''concrete_wall_006_nor_gl_1k.jpg'' (Num 0.5)) \<and>
   normalTexture (ClockMaterial clockConfig)
     = Some (newTexture ''concrete_wall_006_rough_1k.jpg'' (Num 0.5)) \<and>
   uScale (newTexture ''concrete_wall_006_nor_gl_1k.jpg'' (Num 0.5))
     = uScale (baseTexture (ClockMaterial clockConfig)) \<and>
   uScale (newTexture ''concrete_wall_006_rough_1k.jpg'' (Num 0.5))
     = uScale (baseTexture (ClockMaterial clockConfig))"
proof -
  have bare: "cfg_metallic bareConfig = None" "cfg_roughness bareConfig = None"
    "textureScale bareConfig = Some (Num 0)"
    by (simp_all add: bareConfig_def)
  have given: "cfg_metallic clockConfig = Some (Num 0.5)" "cfg_roughness clockConfig = Some (Num 0.7)"
    by (simp_all add: clockConfig_def)
  have maps:
    "metallicRoughnessTexture (ClockMaterial clockConfig)
       = Some (newTexture ''concrete_wall_006_nor_gl_1k.jpg'' (Num 0.5))"
    "normalTexture (ClockMaterial clockConfig)
       = Some (newTexture ''concrete_wall_006_rough_1k.jpg'' (Num 0.5))"
    by (simp_all add: ClockMaterial_def clockConfig_def Let_def)
  show ?thesis
    using bare given maps ClockMaterial_defaults [of bareConfig]
      ClockMaterial_defaults [of clockConfig "Num 0.5" "Num 0.7"
        "newTexture ''concrete_wall_006_nor_gl_1k.jpg'' (Num 0.5)"
        "newTexture ''concrete_wall_006_rough_1k.jpg'' (Num 0.5)"]
    by simp
qed

section \<open>Properties of the clock\<close>

subsection \<open>What the operations leave alone\<close>

lemma createTextMesh_not_ready:
  "\<not> isReady s \<or> font s = None \<or> textBuilder s = None \<Longrightarrow> createTextMesh e t s = (None, s)"
  by (auto simp: createTextMesh_def)

lemma updateDigitMesh_fields:
  "isReady (updateDigitMesh e i c s) = isReady s \<and> font (updateDigitMesh e i c s) = font s \<and>
   textBuilder (updateDigitMesh e i c s) = textBuilder s \<and>
   compiler (updateDigitMesh e i c s) = compiler s"
  by (auto simp: updateDigitMesh_def Let_def createTextMesh_def
           split: option.splits prod.splits if_splits BuildResult.splits)

lemma updateDigitMesh_log:
  "\<exists>evs. sceneLog (updateDigitMesh e i c s) = sceneLog s @ evs"
  by (auto simp: updateDigitMesh_def Let_def createTextMesh_def
           split: option.splits prod.splits if_splits BuildResult.splits)

lemma updateDigitMesh_built:
  "isReady s \<Longrightarrow> font s \<noteq> None \<Longrightarrow> textBuilder s \<noteq> None \<Longrightarrow> create e c = Built lo hi \<Longrightarrow>
   Created (nextMeshId s) \<in> set (sceneLog (updateDigitMesh e i c s))"
  by (auto simp: updateDigitMesh_def Let_def createTextMesh_def
           split: option.splits prod.splits if_splits BuildResult.splits)

lemma updateDigitMesh_keeps_events:
  "x \<in> set (sceneLog s) \<Longrightarrow> x \<in> set (sceneLog (updateDigitMesh e i c s))"
  using updateDigitMesh_log [of e i c s] by auto

lemma positionDigits_fields:
  "isReady (positionDigits s) = isReady s \<and> font (positionDigits s) = font s \<and>
   textBuilder (positionDigits s) = textBuilder s \<and> compiler (positionDigits s) = compiler s \<and>
   sceneLog (positionDigits s) = sceneLog s"
  by (simp add: positionDigits_def Let_def)

lemma updateTime_fields:
  "isReady (updateTime e s) = isReady s \<and> font (updateTime e s) = font s \<and>
   textBuilder (updateTime e s) = textBuilder s \<and> compiler (updateTime e s) = compiler s"
  by (simp add: updateTime_def Let_def positionDigits_fields updateDigitMesh_fields)

lemma updateTime_not_ready: "\<not> isReady s \<Longrightarrow> updateTime e s = s"
  by (simp add: updateTime_def)

subsection \<open>The path that rebuilds the digits\<close>

lemma updateTime_changed:
  assumes "isReady s" "\<not> nowMs e - lastUpdateTime s < 1000"
    "timeString e \<noteq> currentTimeString s"
  shows "updateTime e s =
     positionDigits
       (updateDigitMesh e 4 (charAt (minutesString e) 1)
         (updateDigitMesh e 3 (charAt (minutesString e) 0)
           (updateDigitMesh e 2 '':''
             (updateDigitMesh e 1 (charAt (hoursString e) 1)
               (updateDigitMesh e 0 (charAt (hoursString e) 0)
                 (s\<lparr>lastUpdateTime := nowMs e, currentTimeString := timeString e\<rparr>))))))"
  using assms unfolding updateTime_def Let_def timeString_def by simp

lemma updateTime_first_mesh:
  assumes "isReady s" "font s \<noteq> None" "textBuilder s \<noteq> None"
    and "\<not> nowMs e - lastUpdateTime s < 1000" "timeString e \<noteq> currentTimeString s"
    and "create e (charAt (hoursString e) 0) = Built lo hi"
  shows "Created (nextMeshId s) \<in> set (sceneLog (updateTime e s))"
proof -
  let ?s2 = "s\<lparr>lastUpdateTime := nowMs e, currentTimeString := timeString e\<rparr>"
  have "Created (nextMeshId ?s2)
          \<in> set (sceneLog (updateDigitMesh e 0 (charAt (hoursString e) 0) ?s2))"
    using assms by (intro updateDigitMesh_built) simp_all
  then have "Created (nextMeshId s)
          \<in> set (sceneLog (updateDigitMesh e 0 (charAt (hoursString e) 0) ?s2))"
    by simp
  then show ?thesis
    unfolding updateTime_changed [OF assms(1,4,5)]
    by (simp only: positionDigits_fields updateDigitMesh_keeps_events)
qed

lemma padStart_two: "2 \<le> length (padStart 2 c s)"
  by (simp add: padStart_def)

lemma timeString_length: "5 \<le> length (timeString e)"
  using padStart_two [of "CHR ''0''" "toString (getHours e)"]
    padStart_two [of "CHR ''0''" "toString (getMinutes e)"]
  by (simp add: timeString_def hoursString_def minutesString_def)

subsection \<open>The sample inputs\<close>

lemma timeString_morning: "timeString morningEnv = ''09:41''"
  by (simp add: timeString_def hoursString_def minutesString_def morningEnv_def
        padStart_def toString.simps digitChar_def)

lemma loadedClock_fields:
  "isReady loadedClock" "font loadedClock \<noteq> None" "textBuilder loadedClock \<noteq> None"
  "nextMeshId loadedClock = 0" "sceneLog loadedClock = []"
  "currentTimeString loadedClock = []" "lastUpdateTime loadedClock = 0"
  by (simp_all add: loadedClock_def newClock_def)

lemma shownClock_fields:
  "isReady shownClock" "currentTimeString shownClock = ''09:41''"
  "lastUpdateTime shownClock = 1699999990000"
  by (simp_all add: shownClock_def loadedClock_def newClock_def)

lemma morningEnv_fields:
  "nowMs morningEnv = 1700000000000" "create morningEnv t = Built 0 60"
  by (simp_all add: morningEnv_def)

lemma first_mesh_morning: "Created 0 \<in> set (sceneLog (updateTime morningEnv loadedClock))"
proof -
  have "Created (nextMeshId loadedClock) \<in> set (sceneLog (updateTime morningEnv loadedClock))"
    by (rule updateTime_first_mesh [where lo = 0 and hi = 60])
       (simp_all add: timeString_morning loadedClock_fields morningEnv_fields)
  then show ?thesis by (simp only: loadedClock_fields)
qed

subsection \<open>The throttle and the comparison of \<open>updateTime\<close>\<close>

text \<open>
  Claim C8. For every call of \<open>updateTime\<close>: when fewer than 1000 ms have passed since
  the last accepted update, the call changes no state at all. Otherwise, when the newly
  formatted HH:MM string equals the displayed one, nothing but \<open>lastUpdateTime\<close>
  changes (it becomes the current time once the font is loaded); and a digit mesh is
  disposed, created or replaced only when the new string differs from the displayed
  one.
\<close>

theorem updateTime_throttle_and_compare:
  "(nowMs e - lastUpdateTime s < 1000 \<longrightarrow> updateTime e s = s) \<and>
   (\<not> nowMs e - lastUpdateTime s < 1000 \<and> timeString e = currentTimeString s \<longrightarrow>
      updateTime e s = s\<lparr>lastUpdateTime := lastUpdateTime (updateTime e s)\<rparr> \<and>
      (isReady s \<longrightarrow> lastUpdateTime (updateTime e s) = nowMs e)) \<and>
   (sceneLog (updateTime e s) \<noteq> sceneLog s \<or> digitMeshes (updateTime e s) \<noteq> digitMeshes s \<longrightarrow>
      isReady s \<and> \<not> nowMs e - lastUpdateTime s < 1000 \<and>
      timeString e \<noteq> currentTimeString s)"
  by (auto simp: updateTime_def Let_def timeString_def)

theorem updateTime_throttle_and_compare_witness:
  "nowMs (morningEnv\<lparr>nowMs := 500\<rparr>) - lastUpdateTime loadedClock < 1000 \<and>
   updateTime (morningEnv\<lparr>nowMs := 500\<rparr>) loadedClock = loadedClock \<and>
   \<not> nowMs morningEnv - lastUpdateTime shownClock < 1000 \<and>
   timeString morningEnv = currentTimeString shownClock \<and>
   updateTime morningEnv shownClock = shownClock\<lparr>lastUpdateTime := 1700000000000\<rparr> \<and>
   sceneLog (updateTime morningEnv loadedClock) \<noteq> sceneLog loadedClock \<and>
   timeString morningEnv \<noteq> currentTimeString loadedClock"
proof -
  have early: "nowMs (morningEnv\<lparr>nowMs := 500\<rparr>) - lastUpdateTime loadedClock < 1000"
    by (simp add: loadedClock_fields)
  have late: "\<not> nowMs morningEnv - lastUpdateTime shownClock < 1000"
    by (simp add: shownClock_fields morningEnv_fields)
  have same: "timeString morningEnv = currentTimeString shownClock"
    by (simp add: shownClock_fields timeString_morning)
  have grown: "sceneLog (updateTime morningEnv loadedClock) \<noteq> sceneLog loadedClock"
    using first_mesh_morning by (auto simp: loadedClock_fields)
  have a: "updateTime (morningEnv\<lparr>nowMs := 500\<rparr>) loadedClock = loadedClock"
    using updateTime_throttle_and_compare [of "morningEnv\<lparr>nowMs := 500\<rparr>" loadedClock] early
    by blast
  have "updateTime morningEnv shownClock
          = shownClock\<lparr>lastUpdateTime := lastUpdateTime (updateTime morningEnv shownClock)\<rparr>"
    and "lastUpdateTime (updateTime morningEnv shownClock) = nowMs morningEnv"
    using updateTime_throttle_and_compare [of morningEnv shownClock] late same
      shownClock_fields(1)
    by blast+
  then have b: "updateTime morningEnv shownClock = shownClock\<lparr>lastUpdateTime := 1700000000000\<rparr>"
    by (simp add: morningEnv_fields)
  have c: "timeString morningEnv \<noteq> currentTimeString loadedClock"
    using updateTime_throttle_and_compare [of morningEnv loadedClock] grown by blast
  show ?thesis using early late same grown a b c by blast
qed

subsection \<open>The font system gates every mesh\<close>

lemma reachable_invariant:
  "reachable p s \<Longrightarrow>
     (p = Completed \<longrightarrow>
        isReady s \<and> font s \<noteq> None \<and> textBuilder s \<noteq> None \<and> compiler s \<noteq> None) \<and>
     (p = AwaitingFont \<longrightarrow> compiler s \<noteq> None) \<and>
     (p \<noteq> Completed \<longrightarrow>
        \<not> isReady s \<and> (\<forall>m. Created m \<notin> set (sceneLog s)) \<and>
        digitMeshes s = [None, None, None, None, None] \<and>
        currentTimeString s = [] \<and> lastUpdateTime s = 0)"
proof (induction rule: reachable.induct)
  case constructed
  then show ?case by (simp add: newClock_def)
next
  case (compiler_resolved s c)
  then show ?case by (simp add: compilerBuilt_def)
next
  case (compiler_rejected s)
  then show ?case by simp
next
  case (font_resolved s f b e ok s')
  then show ?case
    by (cases b) (auto simp: fontInstalled_def Let_def updateTime_fields)
next
  case (font_rejected s)
  then show ?case by simp
next
  case (frame p s e)
  then show ?case
    by (cases "p = Completed")
       (simp_all add: update_def updateTime_fields updateTime_not_ready)
next
  case (disposed p s)
  then show ?case by (auto simp: dispose_def Let_def)
qed

lemma reachable_loaded: "reachable Completed (updateTime morningEnv loadedClock)"
proof -
  have "reachable AwaitingFont (compilerBuilt Compiler newClock)"
    by (rule compiler_resolved) (rule constructed)
  moreover have "fontInstalled (Font ''/assets/Roboto-Regular.ttf'') (Some TextMeshBuilder)
        morningEnv (compilerBuilt Compiler newClock) = (True, updateTime morningEnv loadedClock)"
    by (simp add: fontInstalled_def compilerBuilt_def loadedClock_def Let_def)
  ultimately have "reachable (if True then Completed else Failed)
                     (updateTime morningEnv loadedClock)"
    by (rule font_resolved)
  then show ?thesis by simp
qed

text \<open>
  Claim C9. While \<open>isReady\<close> is false, \<open>updateTime\<close> returns the state as it was (no
  mesh created or disposed, \<open>currentTimeString\<close> and \<open>lastUpdateTime\<close> unchanged), and
  \<open>createTextMesh\<close> makes nothing unless the builder, the font and \<open>isReady\<close> are all
  set. In every state the clock can reach, a mesh has been created only if
  \<open>initializeFont\<close> went through: compiler built, font installed, builder made,
  \<open>isReady\<close> set. The first meshes are made by the \<open>updateTime\<close> that \<open>initializeFont\<close>
  itself calls as its last step.
\<close>

theorem updateTime_waits_for_font:
  "(\<not> isReady s \<longrightarrow> updateTime e s = s) \<and>
   (\<not> isReady s \<or> font s = None \<or> textBuilder s = None \<longrightarrow>
      createTextMesh e t s = (None, s)) \<and>
   (reachable p r \<and> (Created m \<in> set (sceneLog r) \<or> digitMeshes r ! i \<noteq> None \<and> i < 5) \<longrightarrow>
      p = Completed \<and> isReady r \<and> compiler r \<noteq> None \<and> font r \<noteq> None \<and>
      textBuilder r \<noteq> None)"
proof (intro conjI impI)
  assume "\<not> isReady s"
  then show "updateTime e s = s" by (rule updateTime_not_ready)
next
  assume "\<not> isReady s \<or> font s = None \<or> textBuilder s = None"
  then show "createTextMesh e t s = (None, s)" by (rule createTextMesh_not_ready)
next
  assume h: "reachable p r \<and>
    (Created m \<in> set (sceneLog r) \<or> digitMeshes r ! i \<noteq> None \<and> i < 5)"
  then have inv:
    "p = Completed \<longrightarrow>
        isReady r \<and> font r \<noteq> None \<and> textBuilder r \<noteq> None \<and> compiler r \<noteq> None"
    "p \<noteq> Completed \<longrightarrow>
        (\<forall>m. Created m \<notin> set (sceneLog r)) \<and> digitMeshes r = [None, None, None, None, None]"
    using reachable_invariant [of p r] by blast+
  have p: "p = Completed"
  proof (rule ccontr)
    assume "p \<noteq> Completed"
    with inv(2) have none: "\<forall>m. Created m \<notin> set (sceneLog r)"
      and empty: "digitMeshes r = [None, None, None, None, None]" by blast+
    from h none have "digitMeshes r ! i \<noteq> None" "i < 5" by blast+
    with empty show False by (auto simp: nth_Cons' split: if_splits)
  qed
  with inv(1) show "p = Completed" "isReady r" "compiler r \<noteq> None" "font r \<noteq> None"
    "textBuilder r \<noteq> None" by blast+
qed

theorem updateTime_waits_for_font_witness:
  "\<not> isReady newClock \<and> updateTime morningEnv newClock = newClock \<and>
   createTextMesh morningEnv ''0'' newClock = (None, newClock) \<and>
   reachable Completed (updateTime morningEnv loadedClock) \<and>
   Created 0 \<in> set (sceneLog (updateTime morningEnv loadedClock)) \<and>
   isReady (updateTime morningEnv loadedClock) \<and>
   font (updateTime morningEnv loadedClock) \<noteq> None"
proof -
  have n: "\<not> isReady newClock" by (simp add: newClock_def)
  show ?thesis
    using n reachable_loaded first_mesh_morning
      updateTime_waits_for_font [of newClock morningEnv "''0''" Completed
        "updateTime morningEnv loadedClock" 0 0]
    by blast
qed

section \<open>Properties of the wave field\<close>

subsection \<open>Time evolution\<close>

text \<open>
  Claim C1. For every cell with wavevector \<open>k = (kx, kz)\<close> and every time \<open>t\<close>, the
  evolved amplitude is \<open>h0(k) e^(i \<omega> t) + conj(h0(-k)) e^(-i \<omega> t)\<close> with the
  dispersion frequency \<open>\<omega> = sqrt(9.81 |k|)\<close>.
\<close>

theorem timeEvolution_formula:
  "dispersion (kx, kz) = sqrt (9.81 * sqrt (kx\<^sup>2 + kz\<^sup>2)) \<and>
   timeEvolution h0 (kx, kz) t =
     h0 (kx, kz) * exp (\<i> * complex_of_real (dispersion (kx, kz) * t)) +
     cnj (h0 (- kx, - kz)) * exp (- (\<i> * complex_of_real (dispersion (kx, kz) * t)))"
proof
  show "dispersion (kx, kz) = sqrt (9.81 * sqrt (kx\<^sup>2 + kz\<^sup>2))"
    by (simp add: dispersion_def kmag_def)
next
  have "cis (- (dispersion (kx, kz) * t))
          = exp (- (\<i> * complex_of_real (dispersion (kx, kz) * t)))"
    by (simp add: cis_conv_exp)
  then show "timeEvolution h0 (kx, kz) t =
     h0 (kx, kz) * exp (\<i> * complex_of_real (dispersion (kx, kz) * t)) +
     cnj (h0 (- kx, - kz)) * exp (- (\<i> * complex_of_real (dispersion (kx, kz) * t)))"
    by (simp add: timeEvolution_def forwardTerm_def backwardTerm_def negk_def cis_conv_exp)
qed











subsection \<open>Configuration errors\<close>

lemma isPowerOfTwo_iff: "isPowerOfTwo n \<longleftrightarrow> (\<exists>k. n = 2 ^ k)"
proof
  assume "isPowerOfTwo n"
  then show "\<exists>k. n = 2 ^ k" by (auto simp: isPowerOfTwo_def)
next
  assume "\<exists>k. n = 2 ^ k"
  then obtain k where k: "n = 2 ^ k" ..
  have "k < (2::nat) ^ k" by (rule less_exp)
  with k show "isPowerOfTwo n" by (auto simp: isPowerOfTwo_def)
qed

lemma twelve_not_power: "\<not> isPowerOfTwo 12"
proof -
  have "{0 ..< 12::nat} = set [0 ..< 12]" by simp
  also have "[0 ..< 12::nat] = [0, 1, 2, 3, 4, 5, 6, 7, 8, 9, 10, 11]"
    by (simp add: upt_rec)
  finally show ?thesis unfolding isPowerOfTwo_def by simp
qed

lemma initializePipeline_valid:
  "isPowerOfTwo (gridSize c) \<Longrightarrow> 0 < patchSize c \<Longrightarrow>
   initializePipeline initSpectrum c st = (Inr (), Running (initSpectrum c))"
  by (simp add: initializePipeline_def validateConfig_def)

text \<open>
  Claim C3. When the grid size is not a power of two, or the patch size is at most 0,
  initialization is rejected with a configuration error, whatever the Spectrum
  Initializer would compute, and the pipeline stays Uninitialized.
\<close>

theorem configuration_error_rejected:
  "\<not> isPowerOfTwo (gridSize c) \<or> patchSize c \<le> 0 \<Longrightarrow>
   initializePipeline initSpectrum c Uninitialized = (Inl ConfigurationError, Uninitialized)"
  by (simp add: initializePipeline_def validateConfig_def)

theorem configuration_error_rejected_witness:
  "\<not> isPowerOfTwo (gridSize \<lparr>gridSize = 12, patchSize = 10, windDirection = (1, 0),
        windSpeed = 5, amplitudeScale = 1, choppiness = 1\<rparr>) \<and>
   initializePipeline gridSize
     \<lparr>gridSize = 12, patchSize = 10, windDirection = (1, 0),
      windSpeed = 5, amplitudeScale = 1, choppiness = 1\<rparr> Uninitialized
     = (Inl ConfigurationError, Uninitialized) \<and>
   patchSize \<lparr>gridSize = 16, patchSize = 0, windDirection = (1, 0),
        windSpeed = 5, amplitudeScale = 1, choppiness = 1\<rparr> \<le> 0 \<and>
   initializePipeline gridSize
     \<lparr>gridSize = 16, patchSize = 0, windDirection = (1, 0),
      windSpeed = 5, amplitudeScale = 1, choppiness = 1\<rparr> Uninitialized
     = (Inl ConfigurationError, Uninitialized)"
proof -
  let ?odd = "\<lparr>gridSize = 12, patchSize = 10, windDirection = (1, 0),
               windSpeed = 5, amplitudeScale = 1, choppiness = 1\<rparr>"
  let ?flat = "\<lparr>gridSize = 16, patchSize = 0, windDirection = (1, 0),
               windSpeed = 5, amplitudeScale = 1, choppiness = 1\<rparr>"
  have n: "\<not> isPowerOfTwo (gridSize ?odd)" using twelve_not_power by simp
  have z: "patchSize ?flat \<le> 0" by simp
  show ?thesis
    using n z configuration_error_rejected [of ?odd gridSize]
      configuration_error_rejected [of ?flat gridSize]
    by blast
qed

subsection \<open>The inverse transform\<close>

lemma log2_double: "0 < n \<Longrightarrow> log2 (2 * n) = Suc (log2 n)"
  by (subst log2.simps) simp

lemma log2_one: "log2 (Suc 0) = 0"
  by (subst log2.simps) simp

lemma log2_power: "log2 (2 ^ k) = k"
  by (induction k) (simp_all add: log2_double log2_one)

lemma runPasses_count: "snd (runPasses bf ps (buf, c)) = c + length ps"
  by (induction ps arbitrary: buf c) simp_all

lemma inverseFFT2D_parts:
  "inverseFFT2D bf N buf =
     (\<lambda>n m. signCorrection n m (fst (runPasses bf (fftPasses N) (buf, 0)) n m),
      snd (runPasses bf (fftPasses N) (buf, 0)))"
  by (simp add: inverseFFT2D_def split: prod.splits)

text \<open>
  Claim C6. For every grid size \<open>N\<close>, one full 2D inverse transform takes exactly
  \<open>2 log2(N)\<close> butterfly passes (so \<open>2 k\<close> for \<open>N = 2^k\<close>), the \<open>log2(N)\<close> row passes
  first and the \<open>log2(N)\<close> column passes after them, and the output cell \<open>(n, m)\<close> is
  the last pass's cell multiplied by \<open>(-1)^(n+m)\<close>.
\<close>

theorem inverseFFT2D_passes_and_sign:
  "snd (inverseFFT2D bf N buf) = 2 * log2 N \<and>
   snd (inverseFFT2D bf (2 ^ k) buf) = 2 * k \<and>
   take (log2 N) (fftPasses N) = map RowPass [0 ..< log2 N] \<and>
   drop (log2 N) (fftPasses N) = map ColumnPass [0 ..< log2 N] \<and>
   fst (inverseFFT2D bf N buf) n m =
     (- 1) ^ (n + m) * fst (runPasses bf (fftPasses N) (buf, 0)) n m"
proof -
  have len: "length (fftPasses M) = 2 * log2 M" for M
    by (simp add: fftPasses_def)
  have count: "snd (inverseFFT2D bf M buf) = 2 * log2 M" for M
    by (simp add: inverseFFT2D_parts runPasses_count len)
  have "snd (inverseFFT2D bf (2 ^ k) buf) = 2 * k"
    by (simp only: count log2_power)
  moreover have "take (log2 N) (fftPasses N) = map RowPass [0 ..< log2 N]"
    "drop (log2 N) (fftPasses N) = map ColumnPass [0 ..< log2 N]"
    by (simp_all add: fftPasses_def)
  moreover have "fst (inverseFFT2D bf N buf) n m =
     (- 1) ^ (n + m) * fst (runPasses bf (fftPasses N) (buf, 0)) n m"
    by (simp add: inverseFFT2D_parts signCorrection_def)
  ultimately show ?thesis using count [of N] by blast
qed

end
